theory Spec2Isabelle
  imports Complex_Main
begin

section \<open>Python values\<close>

text \<open>
  The operations of \<^verbatim>\<open>supabase_mcp\<close> receive loosely typed arguments: the validators
  test them with \<^verbatim>\<open>isinstance\<close>, truthiness and \<^verbatim>\<open>len\<close>. A value is therefore a
  tagged union of the Python types that reach them. A \<^verbatim>\<open>dict\<close> is the list of its
  items in iteration order. A \<^verbatim>\<open>str\<close> is a \<open>string\<close>, its characters read as code
  points below 256. A \<^verbatim>\<open>float\<close> is the real number it denotes (finite floats).
\<close>

datatype pyval =
    PNone
  | PBool bool
  | PInt int
  | PFloat real
  | PStr string
  | PList "pyval list"
  | PDict "(pyval \<times> pyval) list"

text \<open>Truth value testing: \<^verbatim>\<open>bool(v)\<close>, as used by \<^verbatim>\<open>if v\<close> and \<^verbatim>\<open>not v\<close>.\<close>

fun truthy :: "pyval \<Rightarrow> bool" where
  "truthy PNone = False"
| "truthy (PBool b) = b"
| "truthy (PInt i) = (i \<noteq> 0)"
| "truthy (PFloat r) = (r \<noteq> 0)"
| "truthy (PStr s) = (s \<noteq> [])"
| "truthy (PList xs) = (xs \<noteq> [])"
| "truthy (PDict kvs) = (kvs \<noteq> [])"

text \<open>\<^verbatim>\<open>isinstance(v, dict)\<close>.\<close>

fun isinstance_dict :: "pyval \<Rightarrow> bool" where
  "isinstance_dict (PDict kvs) = True"
| "isinstance_dict v = False"

text \<open>
  \<^verbatim>\<open>isinstance(v, int)\<close> together with the integer the value then denotes:
  \<^verbatim>\<open>bool\<close> is a subclass of \<^verbatim>\<open>int\<close>, with \<^verbatim>\<open>True == 1\<close> and \<^verbatim>\<open>False == 0\<close>.
\<close>

fun as_int :: "pyval \<Rightarrow> int option" where
  "as_int (PInt i) = Some i"
| "as_int (PBool b) = Some (if b then 1 else 0)"
| "as_int v = None"

text \<open>The name of the type of a value, as it appears in the message of a TypeError.\<close>

fun type_name :: "pyval \<Rightarrow> string" where
  "type_name PNone = ''NoneType''"
| "type_name (PBool b) = ''bool''"
| "type_name (PInt i) = ''int''"
| "type_name (PFloat r) = ''float''"
| "type_name (PStr s) = ''str''"
| "type_name (PList xs) = ''list''"
| "type_name (PDict kvs) = ''dict''"

text \<open>
  The text of a \<^verbatim>\<open>str\<close> value, as an f-string interpolates it. The operations apply it
  to a table name that has passed \<open>validate_table_name\<close>, which is a \<^verbatim>\<open>str\<close>
  (lemma \<open>validate_table_name_str\<close>).
\<close>

fun str_val :: "pyval \<Rightarrow> string" where
  "str_val (PStr s) = s"
| "str_val v = []"

text \<open>
  \<^verbatim>\<open>str.strip()\<close> removes leading and trailing whitespace. Below 256 the whitespace
  code points of Python are 9 to 13, 28 to 32, 0x85 and 0xA0.
\<close>

definition isspace :: "char \<Rightarrow> bool" where
  "isspace c = (of_char c \<in> {9, 10, 11, 12, 13, 28, 29, 30, 31, 32, 133, 160 :: nat})"

definition strip :: "string \<Rightarrow> string" where
  "strip s = rev (dropWhile isspace (rev (dropWhile isspace s)))"

text \<open>\<^verbatim>\<open>str(n)\<close> for a non-negative integer: its decimal digits.\<close>

definition digit_char :: "nat \<Rightarrow> char" where
  "digit_char d = char_of (48 + d)"

function show_nat :: "nat \<Rightarrow> string" where
  "show_nat n = (if n < 10 then [digit_char n] else show_nat (n div 10) @ [digit_char (n mod 10)])"
  by pat_completeness auto
termination
  by (relation "measure id") auto

declare show_nat.simps [simp del]

section \<open>Exceptions (exceptions.py)\<close>

text \<open>
  \<^verbatim>\<open>SupabaseMCPError.__init__(message, details)\<close> stores the message and
  \<^verbatim>\<open>details or {}\<close>; \<^verbatim>\<open>QueryExecutionError\<close> adds \<^verbatim>\<open>table_name\<close> and \<^verbatim>\<open>operation\<close>.
  \<open>Exception\<close> stands for an exception of any other class, raised by the external
  client; it carries its \<^verbatim>\<open>str(e)\<close>.
\<close>

datatype exn =
    ValidationError (message_of: string) (details_of: pyval)
  | QueryExecutionError (message_of: string) (table_name_of: string) (operation_of: string)
      (details_of: pyval)
  | TypeError (message_of: string)
  | AttributeError (message_of: string)
  | Exception (message_of: string)

text \<open>\<^verbatim>\<open>str(e)\<close>: every class above passes its message to \<^verbatim>\<open>Exception.__init__\<close>.\<close>

definition str_exn :: "exn \<Rightarrow> string" where
  "str_exn e = message_of e"

text \<open>\<^verbatim>\<open>details or {}\<close> in \<^verbatim>\<open>SupabaseMCPError.__init__\<close>.\<close>

definition details_or_empty :: "pyval \<Rightarrow> pyval" where
  "details_or_empty details = (if truthy details then details else PDict [])"

definition mk_ValidationError :: "string \<Rightarrow> exn" where
  "mk_ValidationError msg = ValidationError msg (details_or_empty PNone)"

definition mk_QueryExecutionError :: "string \<Rightarrow> string \<Rightarrow> string \<Rightarrow> pyval \<Rightarrow> exn" where
  "mk_QueryExecutionError msg table_name operation details =
     QueryExecutionError msg table_name operation (details_or_empty details)"

fun is_ValidationError :: "exn \<Rightarrow> bool" where
  "is_ValidationError (ValidationError m d) = True"
| "is_ValidationError e = False"

text \<open>Whether a result is a raised ValidationError.\<close>

fun raised_ValidationError :: "exn + 'a \<Rightarrow> bool" where
  "raised_ValidationError (Inl e) = is_ValidationError e"
| "raised_ValidationError (Inr x) = False"

text \<open>\<^verbatim>\<open>len(v)\<close>: defined on the sized types, a TypeError on the others.\<close>

fun py_len :: "pyval \<Rightarrow> exn + nat" where
  "py_len (PStr s) = Inr (length s)"
| "py_len (PList xs) = Inr (length xs)"
| "py_len (PDict kvs) = Inr (length kvs)"
| "py_len v = Inl (TypeError (''object of type '' @ [CHR 0x27] @ type_name v @ [CHR 0x27] @ '' has no len()''))"

section \<open>Constants and types (constants.py, types.py)\<close>

datatype ResponseStatus = SUCCESS | ERROR

text \<open>The \<^verbatim>\<open>.value\<close> of an enum member.\<close>

fun status_value :: "ResponseStatus \<Rightarrow> string" where
  "status_value SUCCESS = ''success''"
| "status_value ERROR = ''error''"

record OperationResponse =
  data :: pyval
  count :: nat
  status :: string
  message :: pyval

section \<open>The external client\<close>

text \<open>
  The Supabase client is not part of the repository. Its fluent builder is modelled as
  the test suite observes it: a query is the chain of builder calls that produced it, and
  every call on the client or on a query is appended to a trace. Builder calls do not
  raise. Only \<^verbatim>\<open>execute\<close> reaches the store: what the store answers, and how it changes,
  is a parameter \<open>backend\<close> of every operation. The answer is either an exception or a
  response object exposing \<^verbatim>\<open>data\<close>.
\<close>

datatype call =
    Table pyval
  | Select pyval
  | Insert pyval
  | Update pyval
  | Delete
  | Eq pyval pyval
  | Order pyval bool
  | Limit pyval
  | Execute

type_synonym query = "call list"

text \<open>
  The calls \<^verbatim>\<open>eq(column, value)\<close> that stand for a filters argument in the statements
  below: one per item of a dict, in the order of its items, and none for any other value.
\<close>

fun eq_calls :: "pyval \<Rightarrow> call list" where
  "eq_calls (PDict items) = map (\<lambda>(column, v). Eq column v) items"
| "eq_calls v = []"

datatype response = Response (response_data: pyval)

record 'st world =
  store :: 'st
  trace :: "call list"

type_synonym 'st backend = "query \<Rightarrow> 'st \<Rightarrow> (exn + response) \<times> 'st"

definition builder_call :: "query \<Rightarrow> call \<Rightarrow> 'st world \<Rightarrow> query \<times> 'st world" where
  "builder_call q c w = (q @ [c], w\<lparr>trace := trace w @ [c]\<rparr>)"

definition client_table :: "pyval \<Rightarrow> 'st world \<Rightarrow> query \<times> 'st world" where
  "client_table table_name w = builder_call [] (Table table_name) w"

definition query_select :: "query \<Rightarrow> pyval \<Rightarrow> 'st world \<Rightarrow> query \<times> 'st world" where
  "query_select q columns w = builder_call q (Select columns) w"

definition query_insert :: "query \<Rightarrow> pyval \<Rightarrow> 'st world \<Rightarrow> query \<times> 'st world" where
  "query_insert q records w = builder_call q (Insert records) w"

definition query_update :: "query \<Rightarrow> pyval \<Rightarrow> 'st world \<Rightarrow> query \<times> 'st world" where
  "query_update q updates w = builder_call q (Update updates) w"

definition query_delete :: "query \<Rightarrow> 'st world \<Rightarrow> query \<times> 'st world" where
  "query_delete q w = builder_call q Delete w"

definition query_eq :: "query \<Rightarrow> pyval \<Rightarrow> pyval \<Rightarrow> 'st world \<Rightarrow> query \<times> 'st world" where
  "query_eq q column v w = builder_call q (Eq column v) w"

definition query_order :: "query \<Rightarrow> pyval \<Rightarrow> bool \<Rightarrow> 'st world \<Rightarrow> query \<times> 'st world" where
  "query_order q column ascending w = builder_call q (Order column ascending) w"

definition query_limit :: "query \<Rightarrow> pyval \<Rightarrow> 'st world \<Rightarrow> query \<times> 'st world" where
  "query_limit q n w = builder_call q (Limit n) w"

definition query_execute ::
  "'st backend \<Rightarrow> query \<Rightarrow> 'st world \<Rightarrow> (exn + response) \<times> 'st world" where
  "query_execute backend q w =
     (case backend q (store w) of
        (r, s') \<Rightarrow> (r, \<lparr>store = s', trace = trace w @ [Execute]\<rparr>))"

section \<open>Validators and helpers (utils.py)\<close>

definition validate_table_name :: "pyval \<Rightarrow> exn + unit" where
  "validate_table_name table_name =
     (if \<not> truthy table_name
         \<or> (case table_name of PStr s \<Rightarrow> \<not> truthy (PStr (strip s)) | _ \<Rightarrow> True)
      then Inl (mk_ValidationError ''Table name cannot be empty'')
      else Inr ())"

definition validate_limit :: "pyval \<Rightarrow> exn + unit" where
  "validate_limit limit =
     (if limit \<noteq> PNone \<and> (case as_int limit of None \<Rightarrow> True | Some n \<Rightarrow> n \<le> 0)
      then Inl (mk_ValidationError ''Limit must be a positive integer'')
      else Inr ())"

definition validate_filters :: "pyval \<Rightarrow> exn + unit" where
  "validate_filters filters =
     (if filters \<noteq> PNone then
        if \<not> isinstance_dict filters then Inl (mk_ValidationError ''Filters must be a dictionary'')
        else if \<not> truthy filters then Inl (mk_ValidationError ''Filters dictionary cannot be empty'')
        else Inr ()
      else Inr ())"

definition validate_updates :: "pyval \<Rightarrow> exn + unit" where
  "validate_updates updates =
     (if \<not> isinstance_dict updates then Inl (mk_ValidationError ''Updates must be a dictionary'')
      else if \<not> truthy updates then Inl (mk_ValidationError ''Updates dictionary cannot be empty'')
      else Inr ())"

text \<open>\<^verbatim>\<open>len(data) if data else 0\<close> raises when \<open>data\<close> is truthy and has no length.\<close>

definition create_response :: "pyval \<Rightarrow> ResponseStatus \<Rightarrow> pyval \<Rightarrow> exn + OperationResponse" where
  "create_response d st msg =
     (case (if truthy d then py_len d else Inr 0) of
        Inl e \<Rightarrow> Inl e
      | Inr n \<Rightarrow> Inr \<lparr>data = d, count = n, status = status_value st, message = msg\<rparr>)"

text \<open>The loop \<^verbatim>\<open>for column, value in filters.items(): query = query.eq(column, value)\<close>.\<close>

fun apply_items :: "query \<Rightarrow> (pyval \<times> pyval) list \<Rightarrow> 'st world \<Rightarrow> query \<times> 'st world" where
  "apply_items q [] w = (q, w)"
| "apply_items q ((column, v) # items) w =
     (case query_eq q column v w of (q', w') \<Rightarrow> apply_items q' items w')"

text \<open>A truthy value that is not a dict has no \<^verbatim>\<open>items\<close>: an AttributeError.\<close>

definition apply_filters_to_query ::
  "query \<Rightarrow> pyval \<Rightarrow> 'st world \<Rightarrow> (exn + query) \<times> 'st world" where
  "apply_filters_to_query q filters w =
     (if truthy filters then
        (case filters of
           PDict items \<Rightarrow> (case apply_items q items w of (q', w') \<Rightarrow> (Inr q', w'))
         | _ \<Rightarrow> (Inl (AttributeError ([CHR 0x27] @ type_name filters @ [CHR 0x27]
                     @ '' object has no attribute '' @ [CHR 0x27] @ ''items'' @ [CHR 0x27])), w))
      else (Inr q, w))"

definition safe_execute_query ::
  "'st backend \<Rightarrow> query \<Rightarrow> string \<Rightarrow> string \<Rightarrow> 'st world \<Rightarrow> (exn + response) \<times> 'st world" where
  "safe_execute_query backend q operation table_name w =
     (case query_execute backend q w of
        (Inr r, w') \<Rightarrow> (Inr r, w')
      | (Inl e, w') \<Rightarrow>
          (Inl (mk_QueryExecutionError
                 (''Failed to execute '' @ operation @ '' on table '' @ [CHR 0x27] @ table_name
                    @ [CHR 0x27] @ '': '' @ str_exn e)
                 table_name operation
                 (PDict [(PStr ''original_error'', PStr (str_exn e))])), w'))"

section \<open>Database operations (database.py)\<close>

text \<open>
  Every operation takes the backend and the world (the store and the trace of client
  calls) and returns the raised exception or the result, with the world it leaves.
  Logging is left out. The handler \<^verbatim>\<open>except Exception as e: logger.error(...); raise\<close>
  around each body re-raises the same exception, so it does not appear.
\<close>

definition read_table_rows ::
  "'st backend \<Rightarrow> pyval \<Rightarrow> pyval \<Rightarrow> pyval \<Rightarrow> pyval \<Rightarrow> pyval \<Rightarrow> bool \<Rightarrow> 'st world
     \<Rightarrow> (exn + pyval) \<times> 'st world" where
  "read_table_rows backend table_name columns filters limit order_by ascending w =
     (case validate_table_name table_name of Inl e \<Rightarrow> (Inl e, w) | Inr _ \<Rightarrow>
     (case validate_limit limit of Inl e \<Rightarrow> (Inl e, w) | Inr _ \<Rightarrow>
     (case validate_filters filters of Inl e \<Rightarrow> (Inl e, w) | Inr _ \<Rightarrow>
     (let (q0, w0) = client_table table_name w;
          (q1, w1) = query_select q0 columns w0
      in case apply_filters_to_query q1 filters w1 of
           (Inl e, w2) \<Rightarrow> (Inl e, w2)
         | (Inr q2, w2) \<Rightarrow>
             (let (q3, w3) = (if truthy order_by then query_order q2 order_by ascending w2
                              else (q2, w2));
                  (q4, w4) = (if truthy limit then query_limit q3 limit w3 else (q3, w3))
              in case safe_execute_query backend q4 ''read'' (str_val table_name) w4 of
                   (Inl e, w5) \<Rightarrow> (Inl e, w5)
                 | (Inr r, w5) \<Rightarrow>
                     (case py_len (response_data r) of
                        Inl e \<Rightarrow> (Inl e, w5)
                      | Inr n \<Rightarrow> (Inr (response_data r), w5)))))))"

text \<open>
  The lines shared by create, update and delete after the query has been executed:
  \<^verbatim>\<open>success = response.data is not None and len(response.data) > 0\<close>, the status,
  \<^verbatim>\<open>len(response.data or [])\<close> and the call of \<open>create_response\<close>. The operations
  differ in the verb of the message only (\<^verbatim>\<open>Created\<close> and \<^verbatim>\<open>created\<close>, and so on).
\<close>

definition wrap_response :: "string \<Rightarrow> string \<Rightarrow> response \<Rightarrow> exn + OperationResponse" where
  "wrap_response Verbed verbed r =
     (let d = response_data r in
      case (if d \<noteq> PNone then (case py_len d of Inl e \<Rightarrow> Inl e | Inr n \<Rightarrow> Inr (n > 0))
            else Inr False) of
        Inl e \<Rightarrow> Inl e
      | Inr success \<Rightarrow>
          (case py_len (if truthy d then d else PList []) of
             Inl e \<Rightarrow> Inl e
           | Inr n \<Rightarrow>
               create_response d (if success then SUCCESS else ERROR)
                 (PStr (if success then Verbed @ '' '' @ show_nat n @ '' record(s)''
                        else ''No records were '' @ verbed))))"

definition create_table_records ::
  "'st backend \<Rightarrow> pyval \<Rightarrow> pyval \<Rightarrow> 'st world \<Rightarrow> (exn + OperationResponse) \<times> 'st world" where
  "create_table_records backend table_name records w =
     (case validate_table_name table_name of Inl e \<Rightarrow> (Inl e, w) | Inr _ \<Rightarrow>
     (if \<not> truthy records then (Inl (mk_ValidationError ''Records cannot be empty''), w)
      else
     (case (if isinstance_dict records then Inr 1 else py_len records) of
        Inl e \<Rightarrow> (Inl e, w)
      | Inr record_count \<Rightarrow>
     (let (q0, w0) = client_table table_name w;
          (q1, w1) = query_insert q0 records w0
      in case safe_execute_query backend q1 ''create'' (str_val table_name) w1 of
           (Inl e, w2) \<Rightarrow> (Inl e, w2)
         | (Inr r, w2) \<Rightarrow> (wrap_response ''Created'' ''created'' r, w2)))))"

definition update_table_records ::
  "'st backend \<Rightarrow> pyval \<Rightarrow> pyval \<Rightarrow> pyval \<Rightarrow> 'st world
     \<Rightarrow> (exn + OperationResponse) \<times> 'st world" where
  "update_table_records backend table_name updates filters w =
     (case validate_table_name table_name of Inl e \<Rightarrow> (Inl e, w) | Inr _ \<Rightarrow>
     (case validate_updates updates of Inl e \<Rightarrow> (Inl e, w) | Inr _ \<Rightarrow>
     (case validate_filters filters of Inl e \<Rightarrow> (Inl e, w) | Inr _ \<Rightarrow>
     (let (q0, w0) = client_table table_name w;
          (q1, w1) = query_update q0 updates w0
      in case apply_filters_to_query q1 filters w1 of
           (Inl e, w2) \<Rightarrow> (Inl e, w2)
         | (Inr q2, w2) \<Rightarrow>
             (case safe_execute_query backend q2 ''update'' (str_val table_name) w2 of
                (Inl e, w3) \<Rightarrow> (Inl e, w3)
              | (Inr r, w3) \<Rightarrow> (wrap_response ''Updated'' ''updated'' r, w3))))))"

definition delete_table_records ::
  "'st backend \<Rightarrow> pyval \<Rightarrow> pyval \<Rightarrow> 'st world \<Rightarrow> (exn + OperationResponse) \<times> 'st world" where
  "delete_table_records backend table_name filters w =
     (case validate_table_name table_name of Inl e \<Rightarrow> (Inl e, w) | Inr _ \<Rightarrow>
     (case validate_filters filters of Inl e \<Rightarrow> (Inl e, w) | Inr _ \<Rightarrow>
     (let (q0, w0) = client_table table_name w;
          (q1, w1) = query_delete q0 w0
      in case apply_filters_to_query q1 filters w1 of
           (Inl e, w2) \<Rightarrow> (Inl e, w2)
         | (Inr q2, w2) \<Rightarrow>
             (case safe_execute_query backend q2 ''delete'' (str_val table_name) w2 of
                (Inl e, w3) \<Rightarrow> (Inl e, w3)
              | (Inr r, w3) \<Rightarrow> (wrap_response ''Deleted'' ''deleted'' r, w3)))))"

section \<open>Sample stores\<close>

text \<open>
  The stores of the test suite: one that answers every query with the same rows, and one
  whose \<^verbatim>\<open>execute\<close> raises. The store's state counts the queries it has received.
\<close>

definition returning :: "pyval \<Rightarrow> nat backend" where
  "returning rows q s = (Inr (Response rows), Suc s)"

definition raising :: "string \<Rightarrow> nat backend" where
  "raising msg q s = (Inl (Exception msg), Suc s)"

definition fresh :: "nat world" where
  "fresh = \<lparr>store = 0, trace = []\<rparr>"

section \<open>Properties of the validators and helpers\<close>

lemma all_dropWhile_iff: "(\<forall>x\<in>set (dropWhile P s). P x) = (\<forall>x\<in>set s. P x)"
  by (induction s) simp_all

lemma strip_empty_iff: "(strip s = []) = (\<forall>c\<in>set s. isspace c)"
  unfolding strip_def by (simp add: all_dropWhile_iff)

lemma validate_table_name_cases:
  "validate_table_name v =
     (case v of
        PStr s \<Rightarrow> if strip s \<noteq> [] then Inr ()
                  else Inl (ValidationError ''Table name cannot be empty'' (PDict []))
      | _ \<Rightarrow> Inl (ValidationError ''Table name cannot be empty'' (PDict [])))"
  by (cases v)
    (auto simp: validate_table_name_def mk_ValidationError_def details_or_empty_def strip_def)

lemma isspace_space: "isspace CHR '' ''"
  by (simp add: isspace_def)

lemma strip_users: "strip ''users'' = ''users''"
  by (simp add: strip_def isspace_def)

text \<open>
  C5. \<open>validate_table_name\<close> returns silently for every string that is not empty after
  trimming whitespace. It raises ValidationError with the message
  \<^verbatim>\<open>Table name cannot be empty\<close> for every string that consists of whitespace only (the
  strings whose trimmed form is empty, the empty string among them), for None, and for
  every value that is not a string.
\<close>

theorem validate_table_name_spec:
  "(strip s \<noteq> [] \<longrightarrow> validate_table_name (PStr s) = Inr ())
   \<and> ((\<forall>c\<in>set s'. isspace c) \<longrightarrow>
        validate_table_name (PStr s') = Inl (ValidationError ''Table name cannot be empty'' (PDict [])))
   \<and> ((strip s' = []) = (\<forall>c\<in>set s'. isspace c))
   \<and> validate_table_name (PStr []) = Inl (ValidationError ''Table name cannot be empty'' (PDict []))
   \<and> validate_table_name PNone = Inl (ValidationError ''Table name cannot be empty'' (PDict []))
   \<and> ((\<forall>x. v \<noteq> PStr x) \<longrightarrow>
        validate_table_name v = Inl (ValidationError ''Table name cannot be empty'' (PDict [])))"
  by (cases v) (simp_all add: validate_table_name_cases strip_empty_iff)

theorem validate_table_name_spec_witness:
  "validate_table_name (PStr ''users'') = Inr ()
   \<and> validate_table_name (PStr ''   '') = Inl (ValidationError ''Table name cannot be empty'' (PDict []))
   \<and> validate_table_name (PInt 7) = Inl (ValidationError ''Table name cannot be empty'' (PDict []))"
  using validate_table_name_spec [of "''users''" "''   ''" "PInt 7"]
  by (simp add: strip_users isspace_space)

text \<open>
  C6. \<open>validate_limit\<close> passes on None and on every integer greater than zero. On every
  other value it raises ValidationError with the message
  \<^verbatim>\<open>Limit must be a positive integer\<close>: on every integer that is zero or negative and on
  every value other than None that is not an instance of \<^verbatim>\<open>int\<close>. The last conjunct
  characterises the passing inputs (an instance of \<^verbatim>\<open>int\<close> includes \<^verbatim>\<open>True\<close>, which
  is 1).
\<close>

theorem validate_limit_spec:
  "validate_limit PNone = Inr ()
   \<and> (0 < n \<longrightarrow> validate_limit (PInt n) = Inr ())
   \<and> (m \<le> 0 \<longrightarrow>
        validate_limit (PInt m) = Inl (ValidationError ''Limit must be a positive integer'' (PDict [])))
   \<and> (v \<noteq> PNone \<and> as_int v = None \<longrightarrow>
        validate_limit v = Inl (ValidationError ''Limit must be a positive integer'' (PDict [])))
   \<and> (validate_limit u = Inr ()) = (u = PNone \<or> (\<exists>k. as_int u = Some k \<and> 0 < k))"
  by (auto simp: validate_limit_def mk_ValidationError_def details_or_empty_def
      split: option.splits)

theorem validate_limit_spec_witness:
  "validate_limit (PInt 10) = Inr ()
   \<and> validate_limit (PInt (- 1)) = Inl (ValidationError ''Limit must be a positive integer'' (PDict []))
   \<and> validate_limit (PStr ''10'') = Inl (ValidationError ''Limit must be a positive integer'' (PDict []))
   \<and> validate_limit (PFloat (3 / 2)) = Inl (ValidationError ''Limit must be a positive integer'' (PDict []))"
  using validate_limit_spec [of 10 "- 1" "PStr ''10''" PNone]
    validate_limit_spec [of 10 "- 1" "PFloat (3 / 2)" PNone]
  by simp

text \<open>
  C7. \<open>create_response data status message\<close> returns an envelope whose \<open>count\<close> is
  \<^verbatim>\<open>len(data)\<close> when \<open>data\<close> is truthy and 0 otherwise, whose \<open>status\<close> is the string
  value of the enum member, and whose \<open>data\<close> and \<open>message\<close> are the arguments unchanged.
  This holds for every \<open>data\<close> of the declared type (None or a list of rows) and, more
  generally, for every \<open>data\<close> that is falsy or has a length.
\<close>

theorem create_response_spec:
  "create_response PNone st msg =
     Inr \<lparr>data = PNone, count = 0, status = status_value st, message = msg\<rparr>
   \<and> create_response (PList rows) st msg =
     Inr \<lparr>data = PList rows, count = length rows, status = status_value st, message = msg\<rparr>
   \<and> ((truthy d \<longrightarrow> py_len d = Inr n) \<longrightarrow>
        create_response d st msg =
          Inr \<lparr>data = d, count = (if truthy d then n else 0), status = status_value st,
               message = msg\<rparr>)
   \<and> status_value SUCCESS = ''success'' \<and> status_value ERROR = ''error''"
  by (cases rows) (auto simp: create_response_def)

theorem create_response_spec_witness:
  "create_response (PList [PDict [(PStr ''id'', PInt 1)]]) SUCCESS (PStr ''Success message'') =
     Inr \<lparr>data = PList [PDict [(PStr ''id'', PInt 1)]], count = 1, status = ''success'',
          message = PStr ''Success message''\<rparr>
   \<and> create_response (PList []) SUCCESS PNone =
     Inr \<lparr>data = PList [], count = 0, status = ''success'', message = PNone\<rparr>
   \<and> create_response (PDict [(PStr ''id'', PInt 1)]) ERROR PNone =
     Inr \<lparr>data = PDict [(PStr ''id'', PInt 1)], count = 1, status = ''error'', message = PNone\<rparr>"
  using create_response_spec [of SUCCESS "PStr ''Success message''" "[PDict [(PStr ''id'', PInt 1)]]" PNone 0]
    create_response_spec [of SUCCESS PNone "[]" PNone 0]
    create_response_spec [of ERROR PNone "[]" "PDict [(PStr ''id'', PInt 1)]" 1]
  by simp

text \<open>
  C10. \<open>apply_filters_to_query\<close> is the identity when \<open>filters\<close> is None or the empty
  mapping: it returns the query it was given and makes no call (the world, and with it
  the trace of calls, is unchanged).
\<close>

theorem apply_filters_identity:
  "apply_filters_to_query q PNone w = (Inr q, w)
   \<and> apply_filters_to_query q (PDict []) w = (Inr q, w)"
  by (simp add: apply_filters_to_query_def)

section \<open>Properties of the operations\<close>

lemma apply_items_eq:
  "apply_items q items w =
     (q @ map (\<lambda>(c, v). Eq c v) items, w\<lparr>trace := trace w @ map (\<lambda>(c, v). Eq c v) items\<rparr>)"
  by (induction items arbitrary: q w) (auto simp: query_eq_def builder_call_def)

lemma apply_filters_dict:
  "apply_filters_to_query q (PDict items) w =
     (Inr (q @ map (\<lambda>(c, v). Eq c v) items),
      w\<lparr>trace := trace w @ map (\<lambda>(c, v). Eq c v) items\<rparr>)"
  by (cases items) (simp_all add: apply_filters_to_query_def apply_items_eq)

lemma validate_table_name_str:
  "validate_table_name t = Inr () \<Longrightarrow> \<exists>s. t = PStr s \<and> strip s \<noteq> []"
  by (cases t) (simp_all add: validate_table_name_cases split: if_splits)

lemma validate_table_name_PStr: "strip s \<noteq> [] \<Longrightarrow> validate_table_name (PStr s) = Inr ()"
  by (simp add: validate_table_name_cases)

lemma validate_table_name_Inl:
  "validate_table_name t \<noteq> Inr () \<Longrightarrow>
     validate_table_name t = Inl (ValidationError ''Table name cannot be empty'' (PDict []))"
  by (cases t) (simp_all add: validate_table_name_cases split: if_splits)

lemma validate_filters_Inr:
  "(validate_filters f = Inr ()) = (f = PNone \<or> (\<exists>items. f = PDict items \<and> items \<noteq> []))"
  by (cases f) (simp_all add: validate_filters_def)

lemma validate_filters_Inl:
  "validate_filters f = Inl e \<Longrightarrow> is_ValidationError e"
  by (auto simp: validate_filters_def mk_ValidationError_def split: if_splits)

lemma validate_updates_Inl:
  "validate_updates f = Inl e \<Longrightarrow> is_ValidationError e"
  by (auto simp: validate_updates_def mk_ValidationError_def split: if_splits)

lemma validate_limit_Inl:
  "validate_limit f = Inl e \<Longrightarrow> is_ValidationError e"
  by (auto simp: validate_limit_def mk_ValidationError_def split: if_splits)

lemma validate_table_name_Inl_is:
  "validate_table_name f = Inl e \<Longrightarrow> is_ValidationError e"
  by (auto simp: validate_table_name_def mk_ValidationError_def split: if_splits)

lemma apply_filters_valid:
  "validate_filters f = Inr () \<Longrightarrow>
     apply_filters_to_query q f w = (Inr (q @ eq_calls f), w\<lparr>trace := trace w @ eq_calls f\<rparr>)"
  by (auto simp: validate_filters_Inr apply_filters_dict) (simp add: apply_filters_to_query_def)

lemma safe_execute_query_eq:
  "safe_execute_query backend q operation t w =
     (case backend q (store w) of
        (Inl e, s') \<Rightarrow>
          (Inl (QueryExecutionError
                 (''Failed to execute '' @ operation @ '' on table '' @ [CHR 0x27] @ t
                    @ [CHR 0x27] @ '': '' @ str_exn e)
                 t operation (PDict [(PStr ''original_error'', PStr (str_exn e))])),
           \<lparr>store = s', trace = trace w @ [Execute]\<rparr>)
      | (Inr r, s') \<Rightarrow> (Inr r, \<lparr>store = s', trace = trace w @ [Execute]\<rparr>))"
  by (simp add: safe_execute_query_def query_execute_def mk_QueryExecutionError_def
      details_or_empty_def split: prod.splits sum.splits)

lemma update_run:
  assumes "validate_table_name t = Inr ()" "validate_updates u = Inr ()"
    "validate_filters f = Inr ()"
  shows "update_table_records backend t u f w =
     (case safe_execute_query backend ([Table t, Update u] @ eq_calls f) ''update'' (str_val t)
             (w\<lparr>trace := trace w @ [Table t, Update u] @ eq_calls f\<rparr>) of
        (Inl e, w') \<Rightarrow> (Inl e, w')
      | (Inr r, w') \<Rightarrow> (wrap_response ''Updated'' ''updated'' r, w'))"
  using assms
  by (simp add: update_table_records_def client_table_def query_update_def builder_call_def
      apply_filters_valid)

lemma delete_run:
  assumes "validate_table_name t = Inr ()" "validate_filters f = Inr ()"
  shows "delete_table_records backend t f w =
     (case safe_execute_query backend ([Table t, Delete] @ eq_calls f) ''delete'' (str_val t)
             (w\<lparr>trace := trace w @ [Table t, Delete] @ eq_calls f\<rparr>) of
        (Inl e, w') \<Rightarrow> (Inl e, w')
      | (Inr r, w') \<Rightarrow> (wrap_response ''Deleted'' ''deleted'' r, w'))"
  using assms
  by (simp add: delete_table_records_def client_table_def query_delete_def builder_call_def
      apply_filters_valid)

lemma create_run:
  assumes "validate_table_name t = Inr ()" "truthy rs" "py_len rs = Inr n"
  shows "create_table_records backend t rs w =
     (case safe_execute_query backend [Table t, Insert rs] ''create'' (str_val t)
             (w\<lparr>trace := trace w @ [Table t, Insert rs]\<rparr>) of
        (Inl e, w') \<Rightarrow> (Inl e, w')
      | (Inr r, w') \<Rightarrow> (wrap_response ''Created'' ''created'' r, w'))"
  using assms
  by (simp add: create_table_records_def client_table_def query_insert_def builder_call_def)

lemma read_run:
  assumes "validate_table_name t = Inr ()" "validate_limit l = Inr ()"
    "validate_filters f = Inr ()"
  shows "read_table_rows backend t c f l ob asc w =
     (case safe_execute_query backend
             ([Table t, Select c] @ eq_calls f @ (if truthy ob then [Order ob asc] else [])
                @ (if truthy l then [Limit l] else [])) ''read'' (str_val t)
             (w\<lparr>trace := trace w @ [Table t, Select c] @ eq_calls f
                 @ (if truthy ob then [Order ob asc] else [])
                 @ (if truthy l then [Limit l] else [])\<rparr>) of
        (Inl e, w') \<Rightarrow> (Inl e, w')
      | (Inr r, w') \<Rightarrow>
          (case py_len (response_data r) of
             Inl e \<Rightarrow> (Inl e, w')
           | Inr n \<Rightarrow> (Inr (response_data r), w')))"
  using assms
  by (simp add: read_table_rows_def client_table_def query_select_def query_order_def
      query_limit_def builder_call_def apply_filters_valid)

lemma py_len_Inl: "py_len d = Inl e \<Longrightarrow> \<not> is_ValidationError e"
  by (cases d) auto

lemma py_len_Inr: "py_len d = Inr n \<Longrightarrow> d \<noteq> PNone \<and> truthy d = (0 < n)"
  by (cases d) auto

lemma wrap_response_None:
  "response_data r = PNone \<Longrightarrow>
     wrap_response V v r =
       Inr \<lparr>data = PNone, count = 0, status = ''error'', message = PStr (''No records were '' @ v)\<rparr>"
  by (simp add: wrap_response_def create_response_def)

lemma wrap_response_sized:
  "py_len (response_data r) = Inr n \<Longrightarrow>
     wrap_response V v r =
       Inr \<lparr>data = response_data r, count = n,
            status = (if 0 < n then ''success'' else ''error''),
            message = PStr (if 0 < n then V @ '' '' @ show_nat n @ '' record(s)''
                            else ''No records were '' @ v)\<rparr>"
  using py_len_Inr [of "response_data r" n]
  by (cases "response_data r") (auto simp: wrap_response_def create_response_def)

lemma wrap_response_unsized:
  "response_data r \<noteq> PNone \<Longrightarrow> py_len (response_data r) = Inl e \<Longrightarrow>
     wrap_response V v r = Inl e"
  by (simp add: wrap_response_def)

lemma wrap_response_Inl: "wrap_response V v r = Inl e \<Longrightarrow> \<not> is_ValidationError e"
proof (cases "response_data r = PNone")
  case True
  assume "wrap_response V v r = Inl e"
  with True show ?thesis by (simp add: wrap_response_None)
next
  case False
  assume a: "wrap_response V v r = Inl e"
  show ?thesis
  proof (cases "py_len (response_data r)")
    case (Inl e')
    with False a have "e' = e" by (simp add: wrap_response_unsized)
    with Inl show ?thesis by (simp add: py_len_Inl)
  next
    case (Inr n)
    with a show ?thesis by (simp add: wrap_response_sized)
  qed
qed

lemma wrap_response_Inr:
  assumes "wrap_response V v r = Inr env"
  shows "data env = response_data r
    \<and> (status env = ''success'') = (data env \<noteq> PNone \<and> (\<exists>n. py_len (data env) = Inr n \<and> 0 < n))
    \<and> (status env = ''success'' \<or> status env = ''error'')
    \<and> (status env = ''error'' \<longrightarrow> count env = 0)"
proof (cases "response_data r = PNone")
  case True
  with assms show ?thesis by (auto simp: wrap_response_None)
next
  case False
  show ?thesis
  proof (cases "py_len (response_data r)")
    case (Inl e')
    with False assms show ?thesis by (simp add: wrap_response_unsized)
  next
    case (Inr n)
    with assms py_len_Inr [of "response_data r" n] show ?thesis
      by (auto simp: wrap_response_sized)
  qed
qed

lemma read_world:
  assumes "validate_table_name t = Inr ()" "validate_limit l = Inr ()"
    "validate_filters f = Inr ()"
  shows "snd (read_table_rows backend t c f l ob asc w) =
     \<lparr>store = snd (backend ([Table t, Select c] @ eq_calls f
                  @ (if truthy ob then [Order ob asc] else [])
                  @ (if truthy l then [Limit l] else [])) (store w)),
      trace = trace w @ [Table t, Select c] @ eq_calls f
        @ (if truthy ob then [Order ob asc] else [])
        @ (if truthy l then [Limit l] else []) @ [Execute]\<rparr>"
  using assms
  by (simp add: read_run safe_execute_query_eq split: prod.splits sum.splits)

lemma update_world:
  assumes "validate_table_name t = Inr ()" "validate_updates u = Inr ()"
    "validate_filters f = Inr ()"
  shows "snd (update_table_records backend t u f w) =
     \<lparr>store = snd (backend ([Table t, Update u] @ eq_calls f) (store w)),
      trace = trace w @ [Table t, Update u] @ eq_calls f @ [Execute]\<rparr>"
  using assms
  by (simp add: update_run safe_execute_query_eq split: prod.splits sum.splits)

lemma delete_world:
  assumes "validate_table_name t = Inr ()" "validate_filters f = Inr ()"
  shows "snd (delete_table_records backend t f w) =
     \<lparr>store = snd (backend ([Table t, Delete] @ eq_calls f) (store w)),
      trace = trace w @ [Table t, Delete] @ eq_calls f @ [Execute]\<rparr>"
  using assms
  by (simp add: delete_run safe_execute_query_eq split: prod.splits sum.splits)

lemma validate_filters_nonempty: "items \<noteq> [] \<Longrightarrow> validate_filters (PDict items) = Inr ()"
  by (simp add: validate_filters_Inr)

lemma validate_filters_None: "validate_filters PNone = Inr ()"
  by (simp add: validate_filters_Inr)

lemma validate_limit_None: "validate_limit PNone = Inr ()"
  by (simp add: validate_limit_def)

lemma validate_updates_name: "validate_updates (PDict [(PStr ''name'', PStr ''X'')]) = Inr ()"
  by (simp add: validate_updates_def)

lemma validate_table_name_users: "validate_table_name (PStr ''users'') = Inr ()"
  by (simp add: validate_table_name_cases strip_users)

lemma validate_filters_empty:
  "validate_filters (PDict []) = Inl (ValidationError ''Filters dictionary cannot be empty'' (PDict []))"
  by (simp add: validate_filters_def mk_ValidationError_def details_or_empty_def)

text \<open>
  C8. For every filter mapping, \<open>apply_filters_to_query\<close> applies exactly one equality
  constraint per entry, in the iteration order of the mapping: the query it returns is the
  query it was given followed by one call \<^verbatim>\<open>eq(column, value)\<close> per item, and the same
  calls are what it adds to the trace. A read with a valid table name and the single-entry
  filter \<open>{k: x}\<close> makes the calls table, select, \<open>eq(k, x)\<close>, execute, in this order,
  and the store receives the query with that one constraint. The same holds for every
  non-empty filter mapping in read, update and delete. That the constraints are conjoined
  is the store's reading of the chain.
\<close>

theorem filters_applied_in_order:
  "apply_filters_to_query q (PDict items) w =
     (Inr (q @ map (\<lambda>(column, v). Eq column v) items),
      w\<lparr>trace := trace w @ map (\<lambda>(column, v). Eq column v) items\<rparr>)
   \<and> (strip s \<noteq> [] \<longrightarrow>
        snd (read_table_rows backend (PStr s) c (PDict [(k, x)]) PNone PNone asc w) =
          \<lparr>store = snd (backend [Table (PStr s), Select c, Eq k x] (store w)),
           trace = trace w @ [Table (PStr s), Select c, Eq k x, Execute]\<rparr>)
   \<and> (strip s \<noteq> [] \<and> validate_limit l = Inr () \<and> items \<noteq> [] \<longrightarrow>
        snd (read_table_rows backend (PStr s) c (PDict items) l ob asc w) =
          \<lparr>store = snd (backend ([Table (PStr s), Select c]
                       @ map (\<lambda>(column, v). Eq column v) items
                       @ (if truthy ob then [Order ob asc] else [])
                       @ (if truthy l then [Limit l] else [])) (store w)),
           trace = trace w @ [Table (PStr s), Select c]
             @ map (\<lambda>(column, v). Eq column v) items
             @ (if truthy ob then [Order ob asc] else [])
             @ (if truthy l then [Limit l] else []) @ [Execute]\<rparr>)
   \<and> (strip s \<noteq> [] \<and> validate_updates u = Inr () \<and> items \<noteq> [] \<longrightarrow>
        snd (update_table_records backend (PStr s) u (PDict items) w) =
          \<lparr>store = snd (backend ([Table (PStr s), Update u]
                       @ map (\<lambda>(column, v). Eq column v) items) (store w)),
           trace = trace w @ [Table (PStr s), Update u]
             @ map (\<lambda>(column, v). Eq column v) items @ [Execute]\<rparr>)
   \<and> (strip s \<noteq> [] \<and> items \<noteq> [] \<longrightarrow>
        snd (delete_table_records backend (PStr s) (PDict items) w) =
          \<lparr>store = snd (backend ([Table (PStr s), Delete]
                       @ map (\<lambda>(column, v). Eq column v) items) (store w)),
           trace = trace w @ [Table (PStr s), Delete]
             @ map (\<lambda>(column, v). Eq column v) items @ [Execute]\<rparr>)"
  by (simp add: apply_filters_dict validate_table_name_PStr validate_filters_nonempty
      validate_limit_None read_world update_world delete_world)

theorem filters_applied_in_order_witness:
  "snd (read_table_rows (returning (PList [])) (PStr ''users'') (PStr ''*'')
          (PDict [(PStr ''active'', PBool True)]) PNone PNone True fresh) =
     \<lparr>store = 1,
      trace = [Table (PStr ''users''), Select (PStr ''*''), Eq (PStr ''active'') (PBool True),
               Execute]\<rparr>
   \<and> snd (delete_table_records (returning (PList [])) (PStr ''users'')
          (PDict [(PStr ''id'', PInt 1), (PStr ''role'', PStr ''admin'')]) fresh) =
     \<lparr>store = 1,
      trace = [Table (PStr ''users''), Delete, Eq (PStr ''id'') (PInt 1),
               Eq (PStr ''role'') (PStr ''admin''), Execute]\<rparr>"
  using filters_applied_in_order [where backend = "returning (PList [])" and w = fresh
      and s = "''users''" and c = "PStr ''*''" and k = "PStr ''active''" and x = "PBool True"
      and asc = True and l = PNone and ob = PNone
      and items = "[(PStr ''id'', PInt 1), (PStr ''role'', PStr ''admin'')]"
      and u = "PDict [(PStr ''name'', PStr ''X'')]" and q = "[]"]
  by (simp add: strip_users returning_def fresh_def validate_limit_None validate_updates_def)


subsection \<open>Validation comes first\<close>

lemma safe_execute_query_Inl:
  "safe_execute_query backend q operation t w = (Inl e, w') \<Longrightarrow> \<not> is_ValidationError e"
  by (auto simp: safe_execute_query_eq split: prod.splits sum.splits)

lemma wrap_response_not_raised: "\<not> raised_ValidationError (wrap_response V v r)"
  by (cases "wrap_response V v r") (simp_all add: wrap_response_Inl)

lemma update_invalid:
  assumes "validate_table_name t \<noteq> Inr () \<or> validate_updates u \<noteq> Inr ()
    \<or> validate_filters f \<noteq> Inr ()"
  shows "\<exists>e. is_ValidationError e \<and> update_table_records backend t u f w = (Inl e, w)"
  using assms
  by (auto simp: update_table_records_def split: sum.splits
      dest: validate_table_name_Inl_is validate_updates_Inl validate_filters_Inl)

lemma update_valid:
  assumes "validate_table_name t = Inr ()" "validate_updates u = Inr ()"
    "validate_filters f = Inr ()"
  shows "\<not> raised_ValidationError (fst (update_table_records backend t u f w))"
  using assms
  by (auto simp: update_run wrap_response_not_raised split: prod.splits sum.splits
      dest: safe_execute_query_Inl)

lemma delete_invalid:
  assumes "validate_table_name t \<noteq> Inr () \<or> validate_filters f \<noteq> Inr ()"
  shows "\<exists>e. is_ValidationError e \<and> delete_table_records backend t f w = (Inl e, w)"
  using assms
  by (auto simp: delete_table_records_def split: sum.splits
      dest: validate_table_name_Inl_is validate_filters_Inl)

lemma delete_valid:
  assumes "validate_table_name t = Inr ()" "validate_filters f = Inr ()"
  shows "\<not> raised_ValidationError (fst (delete_table_records backend t f w))"
  using assms
  by (auto simp: delete_run wrap_response_not_raised split: prod.splits sum.splits
      dest: safe_execute_query_Inl)

lemma read_invalid:
  assumes "validate_table_name t \<noteq> Inr () \<or> validate_limit l \<noteq> Inr ()
    \<or> validate_filters f \<noteq> Inr ()"
  shows "\<exists>e. is_ValidationError e \<and> read_table_rows backend t c f l ob asc w = (Inl e, w)"
  using assms
  by (auto simp: read_table_rows_def split: sum.splits
      dest: validate_table_name_Inl_is validate_limit_Inl validate_filters_Inl)

lemma read_valid:
  assumes "validate_table_name t = Inr ()" "validate_limit l = Inr ()"
    "validate_filters f = Inr ()"
  shows "\<not> raised_ValidationError (fst (read_table_rows backend t c f l ob asc w))"
  using assms
  by (auto simp: read_run split: prod.splits sum.splits
      dest: safe_execute_query_Inl py_len_Inl)

lemma create_invalid:
  assumes "validate_table_name t \<noteq> Inr () \<or> \<not> truthy rs"
  shows "\<exists>e. is_ValidationError e \<and> create_table_records backend t rs w = (Inl e, w)"
  using assms
  by (auto simp: create_table_records_def mk_ValidationError_def split: sum.splits
      dest: validate_table_name_Inl_is)

lemma create_unsized:
  assumes "validate_table_name t = Inr ()" "truthy rs" "py_len rs = Inl e"
  shows "create_table_records backend t rs w = (Inl e, w)"
  using assms by (cases rs) (auto simp: create_table_records_def)

lemma create_valid:
  assumes "validate_table_name t = Inr ()" "truthy rs"
  shows "\<not> raised_ValidationError (fst (create_table_records backend t rs w))"
proof (cases "py_len rs")
  case (Inl e)
  with assms show ?thesis by (simp add: create_unsized py_len_Inl)
next
  case (Inr n)
  with assms show ?thesis
    by (auto simp: create_run wrap_response_not_raised split: prod.splits sum.splits
        dest: safe_execute_query_Inl)
qed

text \<open>
  C4. In every operation the validators run before any interaction with the client. An
  operation raises a ValidationError exactly when one of its validators rejects its
  argument (for create: the table name is invalid or the records are falsy), and whenever
  it raises a ValidationError the world is unchanged: no call was made on the client, no
  query was built or executed, and the store is in the state it was in.
\<close>

theorem validation_before_client:
  "raised_ValidationError (fst (read_table_rows backend t c f l ob asc w)) =
     (validate_table_name t \<noteq> Inr () \<or> validate_limit l \<noteq> Inr () \<or> validate_filters f \<noteq> Inr ())
   \<and> (raised_ValidationError (fst (read_table_rows backend t c f l ob asc w)) \<longrightarrow>
        snd (read_table_rows backend t c f l ob asc w) = w)
   \<and> raised_ValidationError (fst (create_table_records backend t rs w)) =
       (validate_table_name t \<noteq> Inr () \<or> \<not> truthy rs)
   \<and> (raised_ValidationError (fst (create_table_records backend t rs w)) \<longrightarrow>
        snd (create_table_records backend t rs w) = w)
   \<and> raised_ValidationError (fst (update_table_records backend t u f w)) =
       (validate_table_name t \<noteq> Inr () \<or> validate_updates u \<noteq> Inr ()
        \<or> validate_filters f \<noteq> Inr ())
   \<and> (raised_ValidationError (fst (update_table_records backend t u f w)) \<longrightarrow>
        snd (update_table_records backend t u f w) = w)
   \<and> raised_ValidationError (fst (delete_table_records backend t f w)) =
       (validate_table_name t \<noteq> Inr () \<or> validate_filters f \<noteq> Inr ())
   \<and> (raised_ValidationError (fst (delete_table_records backend t f w)) \<longrightarrow>
        snd (delete_table_records backend t f w) = w)"
proof -
  have r: "raised_ValidationError (fst (read_table_rows backend t c f l ob asc w)) =
     (validate_table_name t \<noteq> Inr () \<or> validate_limit l \<noteq> Inr () \<or> validate_filters f \<noteq> Inr ())"
    using read_invalid [of t l f backend c ob asc w] read_valid [of t l f backend c ob asc w]
    by auto
  have r': "snd (read_table_rows backend t c f l ob asc w) = w"
    if "validate_table_name t \<noteq> Inr () \<or> validate_limit l \<noteq> Inr () \<or> validate_filters f \<noteq> Inr ()"
    using read_invalid [OF that, of backend c ob asc w] by auto
  have c: "raised_ValidationError (fst (create_table_records backend t rs w)) =
       (validate_table_name t \<noteq> Inr () \<or> \<not> truthy rs)"
    using create_invalid [of t rs backend w] create_valid [of t rs backend w] by auto
  have c': "snd (create_table_records backend t rs w) = w"
    if "validate_table_name t \<noteq> Inr () \<or> \<not> truthy rs"
    using create_invalid [OF that, of backend w] by auto
  have u: "raised_ValidationError (fst (update_table_records backend t u f w)) =
       (validate_table_name t \<noteq> Inr () \<or> validate_updates u \<noteq> Inr ()
        \<or> validate_filters f \<noteq> Inr ())"
    using update_invalid [of t u f backend w] update_valid [of t u f backend w] by auto
  have u': "snd (update_table_records backend t u f w) = w"
    if "validate_table_name t \<noteq> Inr () \<or> validate_updates u \<noteq> Inr ()
        \<or> validate_filters f \<noteq> Inr ()"
    using update_invalid [OF that, of backend w] by auto
  have d: "raised_ValidationError (fst (delete_table_records backend t f w)) =
       (validate_table_name t \<noteq> Inr () \<or> validate_filters f \<noteq> Inr ())"
    using delete_invalid [of t f backend w] delete_valid [of t f backend w] by auto
  have d': "snd (delete_table_records backend t f w) = w"
    if "validate_table_name t \<noteq> Inr () \<or> validate_filters f \<noteq> Inr ()"
    using delete_invalid [OF that, of backend w] by auto
  from r r' c c' u u' d d' show ?thesis
    by blast
qed

theorem validation_before_client_witness:
  "snd (read_table_rows (returning (PList [])) (PStr ''users'') (PStr ''*'') (PDict [])
          (PInt (- 1)) PNone True fresh) = fresh
   \<and> snd (create_table_records (returning (PList [])) (PStr ''users'') (PDict []) fresh) = fresh
   \<and> snd (update_table_records (returning (PList [])) (PStr ''users'') (PDict []) (PDict [])
          fresh) = fresh
   \<and> snd (delete_table_records (returning (PList [])) (PStr ''users'') (PDict []) fresh) = fresh"
  using validation_before_client [where backend = "returning (PList [])" and w = fresh
      and t = "PStr ''users''" and c = "PStr ''*''" and f = "PDict []" and l = "PInt (- 1)"
      and ob = PNone and asc = True and rs = "PDict []" and u = "PDict []"]
  by (simp add: validate_filters_empty)

subsection \<open>Failures of execute\<close>

lemma count_list_eq_calls: "count_list (eq_calls f) Execute = 0"
proof (cases f)
  case (PDict items)
  have "count_list (map (\<lambda>(column, v). Eq column v) items) Execute = 0"
    by (induction items) auto
  with PDict show ?thesis by simp
qed simp_all

text \<open>
  C3. If the client's \<^verbatim>\<open>execute\<close> raises an exception \<open>e\<close>, then
  \<open>safe_execute_query\<close>, and with it each of read, create, update and delete called with
  arguments that pass validation, raises a QueryExecutionError whose message is
  \<^verbatim>\<open>Failed to execute {operation} on table '{table_name}': \<close> followed by \<^verbatim>\<open>str(e)\<close>, which
  carries the table name and the operation, and whose details are
  \<^verbatim>\<open>{"original_error": str(e)}\<close>. The exception is not swallowed (the result is an error)
  and the call is not retried: the calls made by the operation contain \<^verbatim>\<open>execute\<close>
  exactly once, and the store is left as that one call left it.
\<close>

theorem execute_failure_wrapped:
  "(backend q (store w) = (Inl e, s') \<longrightarrow>
      safe_execute_query backend q operation table w =
        (Inl (QueryExecutionError
               (''Failed to execute '' @ operation @ '' on table '' @ [CHR 0x27] @ table
                  @ [CHR 0x27] @ '': '' @ str_exn e)
               table operation (PDict [(PStr ''original_error'', PStr (str_exn e))])),
         \<lparr>store = s', trace = trace w @ [Execute]\<rparr>))
   \<and> (strip s \<noteq> [] \<and> validate_limit l = Inr () \<and> validate_filters f = Inr ()
        \<and> backend ([Table (PStr s), Select c] @ eq_calls f
                     @ (if truthy ob then [Order ob asc] else [])
                     @ (if truthy l then [Limit l] else [])) (store w) = (Inl e, s') \<longrightarrow>
      read_table_rows backend (PStr s) c f l ob asc w =
        (Inl (QueryExecutionError
               (''Failed to execute read on table '' @ [CHR 0x27] @ s @ [CHR 0x27] @ '': ''
                  @ str_exn e)
               s ''read'' (PDict [(PStr ''original_error'', PStr (str_exn e))])),
         \<lparr>store = s',
            trace = trace w @ [Table (PStr s), Select c] @ eq_calls f
              @ (if truthy ob then [Order ob asc] else [])
              @ (if truthy l then [Limit l] else []) @ [Execute]\<rparr>)
      \<and> count_list ([Table (PStr s), Select c] @ eq_calls f
              @ (if truthy ob then [Order ob asc] else [])
              @ (if truthy l then [Limit l] else []) @ [Execute]) Execute = 1)
   \<and> (strip s \<noteq> [] \<and> truthy rs \<and> py_len rs = Inr n
        \<and> backend [Table (PStr s), Insert rs] (store w) = (Inl e, s') \<longrightarrow>
      create_table_records backend (PStr s) rs w =
        (Inl (QueryExecutionError
               (''Failed to execute create on table '' @ [CHR 0x27] @ s @ [CHR 0x27] @ '': ''
                  @ str_exn e)
               s ''create'' (PDict [(PStr ''original_error'', PStr (str_exn e))])),
         \<lparr>store = s', trace = trace w @ [Table (PStr s), Insert rs, Execute]\<rparr>))
   \<and> (strip s \<noteq> [] \<and> validate_updates u = Inr () \<and> validate_filters f = Inr ()
        \<and> backend ([Table (PStr s), Update u] @ eq_calls f) (store w) = (Inl e, s') \<longrightarrow>
      update_table_records backend (PStr s) u f w =
        (Inl (QueryExecutionError
               (''Failed to execute update on table '' @ [CHR 0x27] @ s @ [CHR 0x27] @ '': ''
                  @ str_exn e)
               s ''update'' (PDict [(PStr ''original_error'', PStr (str_exn e))])),
         \<lparr>store = s', trace = trace w @ [Table (PStr s), Update u] @ eq_calls f @ [Execute]\<rparr>)
      \<and> count_list ([Table (PStr s), Update u] @ eq_calls f @ [Execute]) Execute = 1)
   \<and> (strip s \<noteq> [] \<and> validate_filters f = Inr ()
        \<and> backend ([Table (PStr s), Delete] @ eq_calls f) (store w) = (Inl e, s') \<longrightarrow>
      delete_table_records backend (PStr s) f w =
        (Inl (QueryExecutionError
               (''Failed to execute delete on table '' @ [CHR 0x27] @ s @ [CHR 0x27] @ '': ''
                  @ str_exn e)
               s ''delete'' (PDict [(PStr ''original_error'', PStr (str_exn e))])),
         \<lparr>store = s', trace = trace w @ [Table (PStr s), Delete] @ eq_calls f @ [Execute]\<rparr>)
      \<and> count_list ([Table (PStr s), Delete] @ eq_calls f @ [Execute]) Execute = 1)"
proof (intro conjI impI; (elim conjE)?)
  assume "backend q (store w) = (Inl e, s')"
  then show "safe_execute_query backend q operation table w =
        (Inl (QueryExecutionError
               (''Failed to execute '' @ operation @ '' on table '' @ [CHR 0x27] @ table
                  @ [CHR 0x27] @ '': '' @ str_exn e)
               table operation (PDict [(PStr ''original_error'', PStr (str_exn e))])),
         \<lparr>store = s', trace = trace w @ [Execute]\<rparr>)"
    by (simp add: safe_execute_query_eq)
qed (simp_all add: validate_table_name_PStr read_run create_run update_run delete_run
    safe_execute_query_eq count_list_eq_calls)

theorem execute_failure_wrapped_witness:
  "safe_execute_query (raising ''Database error'') [] ''read'' ''users'' fresh =
     (Inl (QueryExecutionError ''Failed to execute read on table 'users': Database error''
            ''users'' ''read'' (PDict [(PStr ''original_error'', PStr ''Database error'')])),
      \<lparr>store = 1, trace = [Execute]\<rparr>)
   \<and> delete_table_records (raising ''Database error'') (PStr ''users'')
      (PDict [(PStr ''id'', PInt 999)]) fresh =
     (Inl (QueryExecutionError ''Failed to execute delete on table 'users': Database error''
            ''users'' ''delete'' (PDict [(PStr ''original_error'', PStr ''Database error'')])),
      \<lparr>store = 1,
       trace = [Table (PStr ''users''), Delete, Eq (PStr ''id'') (PInt 999), Execute]\<rparr>)
   \<and> update_table_records (raising ''Database error'') (PStr ''users'')
      (PDict [(PStr ''name'', PStr ''X'')]) (PDict [(PStr ''id'', PInt 999)]) fresh =
     (Inl (QueryExecutionError ''Failed to execute update on table 'users': Database error''
            ''users'' ''update'' (PDict [(PStr ''original_error'', PStr ''Database error'')])),
      \<lparr>store = 1,
       trace = [Table (PStr ''users''), Update (PDict [(PStr ''name'', PStr ''X'')]),
                Eq (PStr ''id'') (PInt 999), Execute]\<rparr>)
   \<and> create_table_records (raising ''Database error'') (PStr ''users'')
      (PDict [(PStr ''name'', PStr ''X'')]) fresh =
     (Inl (QueryExecutionError ''Failed to execute create on table 'users': Database error''
            ''users'' ''create'' (PDict [(PStr ''original_error'', PStr ''Database error'')])),
      \<lparr>store = 1,
       trace = [Table (PStr ''users''), Insert (PDict [(PStr ''name'', PStr ''X'')]),
                Execute]\<rparr>)
   \<and> read_table_rows (raising ''Database error'') (PStr ''users'') (PStr ''*'')
      (PDict [(PStr ''id'', PInt 999)]) PNone PNone True fresh =
     (Inl (QueryExecutionError ''Failed to execute read on table 'users': Database error''
            ''users'' ''read'' (PDict [(PStr ''original_error'', PStr ''Database error'')])),
      \<lparr>store = 1,
       trace = [Table (PStr ''users''), Select (PStr ''*''), Eq (PStr ''id'') (PInt 999),
                Execute]\<rparr>)"
  using execute_failure_wrapped [where backend = "raising ''Database error''" and w = fresh
      and e = "Exception ''Database error''" and s' = 1 and s = "''users''"
      and f = "PDict [(PStr ''id'', PInt 999)]" and l = PNone and ob = PNone and asc = True
      and c = "PStr ''*''" and rs = "PDict [(PStr ''name'', PStr ''X'')]" and n = 1
      and u = "PDict [(PStr ''name'', PStr ''X'')]" and q = "[]" and operation = "''read''"
      and table = "''users''"]
  by (simp add: raising_def fresh_def strip_users validate_limit_None validate_updates_name
      validate_filters_nonempty str_exn_def)


subsection \<open>The envelope\<close>

lemma show_nat_1: "show_nat (Suc 0) = ''1''"
  by code_simp

text \<open>
  The scenario of the test suite: creating one record in \<^verbatim>\<open>users\<close> on a store that
  answers with one row.
\<close>

lemma create_single_record_example:
  "create_table_records (returning (PList [PDict [(PStr ''id'', PInt 1), (PStr ''name'', PStr ''John'')]]))
      (PStr ''users'') (PDict [(PStr ''name'', PStr ''John'')]) fresh =
     (Inr \<lparr>data = PList [PDict [(PStr ''id'', PInt 1), (PStr ''name'', PStr ''John'')]],
           count = 1, status = ''success'', message = PStr ''Created 1 record(s)''\<rparr>,
      \<lparr>store = 1,
       trace = [Table (PStr ''users''), Insert (PDict [(PStr ''name'', PStr ''John'')]),
                Execute]\<rparr>)"
  by (simp add: create_run [where n = 1] validate_table_name_users safe_execute_query_eq
      wrap_response_sized [where n = 1] show_nat_1 returning_def fresh_def)

lemma create_Inr:
  assumes "create_table_records backend t rs w = (Inr env, w')"
  shows "\<exists>r. wrap_response ''Created'' ''created'' r = Inr env"
proof -
  have v: "validate_table_name t = Inr ()" "truthy rs"
    using assms create_invalid [of t rs backend w] by auto
  then obtain n where "py_len rs = Inr n"
    using assms create_unsized [of t rs _ backend w] by (cases "py_len rs") auto
  with v assms show ?thesis
    by (auto simp: create_run split: prod.splits sum.splits)
qed

lemma update_Inr:
  assumes "update_table_records backend t u f w = (Inr env, w')"
  shows "\<exists>r. wrap_response ''Updated'' ''updated'' r = Inr env"
proof -
  have "validate_table_name t = Inr ()" "validate_updates u = Inr ()"
    "validate_filters f = Inr ()"
    using assms update_invalid [of t u f backend w] by auto
  with assms show ?thesis
    by (auto simp: update_run split: prod.splits sum.splits)
qed

lemma delete_Inr:
  assumes "delete_table_records backend t f w = (Inr env, w')"
  shows "\<exists>r. wrap_response ''Deleted'' ''deleted'' r = Inr env"
proof -
  have "validate_table_name t = Inr ()" "validate_filters f = Inr ()"
    using assms delete_invalid [of t f backend w] by auto
  with assms show ?thesis
    by (auto simp: delete_run split: prod.splits sum.splits)
qed

lemma wrap_response_zero_rows:
  "wrap_response V v (Response (PList [])) =
     Inr \<lparr>data = PList [], count = 0, status = ''error'', message = PStr (''No records were '' @ v)\<rparr>"
  by (simp add: wrap_response_sized)

text \<open>
  C2. Every envelope returned by create, update or delete has status \<^verbatim>\<open>success\<close> if and
  only if its data is not None and not empty, and has status \<^verbatim>\<open>error\<close> otherwise. When
  the arguments pass validation and the store answers with zero rows without raising, the
  operation returns (raises nothing) the envelope with data \<^verbatim>\<open>[]\<close>, count 0 and status
  \<^verbatim>\<open>error\<close>.
\<close>

theorem envelope_status:
  "(create_table_records backend t rs w = (Inr envc, wc) \<longrightarrow>
      (status envc = ''success'') =
        (data envc \<noteq> PNone \<and> (\<exists>n. py_len (data envc) = Inr n \<and> 0 < n))
      \<and> (status envc = ''success'' \<or> status envc = ''error''))
   \<and> (update_table_records backend t u f w = (Inr envu, wu) \<longrightarrow>
      (status envu = ''success'') =
        (data envu \<noteq> PNone \<and> (\<exists>n. py_len (data envu) = Inr n \<and> 0 < n))
      \<and> (status envu = ''success'' \<or> status envu = ''error''))
   \<and> (delete_table_records backend t f w = (Inr envd, wd) \<longrightarrow>
      (status envd = ''success'') =
        (data envd \<noteq> PNone \<and> (\<exists>n. py_len (data envd) = Inr n \<and> 0 < n))
      \<and> (status envd = ''success'' \<or> status envd = ''error''))
   \<and> (validate_table_name t = Inr () \<and> truthy rs \<and> py_len rs = Inr k
        \<and> backend [Table t, Insert rs] (store w) = (Inr (Response (PList [])), s') \<longrightarrow>
      create_table_records backend t rs w =
        (Inr \<lparr>data = PList [], count = 0, status = ''error'',
              message = PStr ''No records were created''\<rparr>,
         \<lparr>store = s', trace = trace w @ [Table t, Insert rs, Execute]\<rparr>))
   \<and> (validate_table_name t = Inr () \<and> validate_updates u = Inr ()
        \<and> validate_filters f = Inr ()
        \<and> backend ([Table t, Update u] @ eq_calls f) (store w)
            = (Inr (Response (PList [])), s') \<longrightarrow>
      update_table_records backend t u f w =
        (Inr \<lparr>data = PList [], count = 0, status = ''error'',
              message = PStr ''No records were updated''\<rparr>,
         \<lparr>store = s', trace = trace w @ [Table t, Update u] @ eq_calls f @ [Execute]\<rparr>))
   \<and> (validate_table_name t = Inr () \<and> validate_filters f = Inr ()
        \<and> backend ([Table t, Delete] @ eq_calls f) (store w)
            = (Inr (Response (PList [])), s') \<longrightarrow>
      delete_table_records backend t f w =
        (Inr \<lparr>data = PList [], count = 0, status = ''error'',
              message = PStr ''No records were deleted''\<rparr>,
         \<lparr>store = s', trace = trace w @ [Table t, Delete] @ eq_calls f @ [Execute]\<rparr>))"
proof -
  have c: "create_table_records backend t rs w = (Inr envc, wc) \<longrightarrow>
      (status envc = ''success'') =
        (data envc \<noteq> PNone \<and> (\<exists>n. py_len (data envc) = Inr n \<and> 0 < n))
      \<and> (status envc = ''success'' \<or> status envc = ''error'')"
  proof
    assume "create_table_records backend t rs w = (Inr envc, wc)"
    then obtain r where "wrap_response ''Created'' ''created'' r = Inr envc"
      using create_Inr by blast
    from wrap_response_Inr [OF this]
    show "(status envc = ''success'') =
        (data envc \<noteq> PNone \<and> (\<exists>n. py_len (data envc) = Inr n \<and> 0 < n))
      \<and> (status envc = ''success'' \<or> status envc = ''error'')"
      by blast
  qed
  have u: "update_table_records backend t u f w = (Inr envu, wu) \<longrightarrow>
      (status envu = ''success'') =
        (data envu \<noteq> PNone \<and> (\<exists>n. py_len (data envu) = Inr n \<and> 0 < n))
      \<and> (status envu = ''success'' \<or> status envu = ''error'')"
  proof
    assume "update_table_records backend t u f w = (Inr envu, wu)"
    then obtain r where "wrap_response ''Updated'' ''updated'' r = Inr envu"
      using update_Inr by blast
    from wrap_response_Inr [OF this]
    show "(status envu = ''success'') =
        (data envu \<noteq> PNone \<and> (\<exists>n. py_len (data envu) = Inr n \<and> 0 < n))
      \<and> (status envu = ''success'' \<or> status envu = ''error'')"
      by blast
  qed
  have d: "delete_table_records backend t f w = (Inr envd, wd) \<longrightarrow>
      (status envd = ''success'') =
        (data envd \<noteq> PNone \<and> (\<exists>n. py_len (data envd) = Inr n \<and> 0 < n))
      \<and> (status envd = ''success'' \<or> status envd = ''error'')"
  proof
    assume "delete_table_records backend t f w = (Inr envd, wd)"
    then obtain r where "wrap_response ''Deleted'' ''deleted'' r = Inr envd"
      using delete_Inr by blast
    from wrap_response_Inr [OF this]
    show "(status envd = ''success'') =
        (data envd \<noteq> PNone \<and> (\<exists>n. py_len (data envd) = Inr n \<and> 0 < n))
      \<and> (status envd = ''success'' \<or> status envd = ''error'')"
      by blast
  qed
  have zc: "validate_table_name t = Inr () \<and> truthy rs \<and> py_len rs = Inr k
        \<and> backend [Table t, Insert rs] (store w) = (Inr (Response (PList [])), s') \<longrightarrow>
      create_table_records backend t rs w =
        (Inr \<lparr>data = PList [], count = 0, status = ''error'',
              message = PStr ''No records were created''\<rparr>,
         \<lparr>store = s', trace = trace w @ [Table t, Insert rs, Execute]\<rparr>)"
    by (simp add: create_run safe_execute_query_eq wrap_response_zero_rows)
  have zu: "validate_table_name t = Inr () \<and> validate_updates u = Inr ()
        \<and> validate_filters f = Inr ()
        \<and> backend ([Table t, Update u] @ eq_calls f) (store w)
            = (Inr (Response (PList [])), s') \<longrightarrow>
      update_table_records backend t u f w =
        (Inr \<lparr>data = PList [], count = 0, status = ''error'',
              message = PStr ''No records were updated''\<rparr>,
         \<lparr>store = s', trace = trace w @ [Table t, Update u] @ eq_calls f @ [Execute]\<rparr>)"
    by (simp add: update_run safe_execute_query_eq wrap_response_zero_rows)
  have zd: "validate_table_name t = Inr () \<and> validate_filters f = Inr ()
        \<and> backend ([Table t, Delete] @ eq_calls f) (store w)
            = (Inr (Response (PList [])), s') \<longrightarrow>
      delete_table_records backend t f w =
        (Inr \<lparr>data = PList [], count = 0, status = ''error'',
              message = PStr ''No records were deleted''\<rparr>,
         \<lparr>store = s', trace = trace w @ [Table t, Delete] @ eq_calls f @ [Execute]\<rparr>)"
    by (simp add: delete_run safe_execute_query_eq wrap_response_zero_rows)
  show ?thesis
    by (intro conjI) (rule c, rule u, rule d, rule zc, rule zu, rule zd)
qed

theorem envelope_status_witness:
  "update_table_records (returning (PList [])) (PStr ''users'')
      (PDict [(PStr ''name'', PStr ''X'')]) (PDict [(PStr ''id'', PInt 1)]) fresh =
     (Inr \<lparr>data = PList [], count = 0, status = ''error'',
           message = PStr ''No records were updated''\<rparr>,
      \<lparr>store = 1,
       trace = [Table (PStr ''users''), Update (PDict [(PStr ''name'', PStr ''X'')]),
                Eq (PStr ''id'') (PInt 1), Execute]\<rparr>)
   \<and> create_table_records (returning (PList [])) (PStr ''users'')
      (PDict [(PStr ''name'', PStr ''X'')]) fresh =
     (Inr \<lparr>data = PList [], count = 0, status = ''error'',
           message = PStr ''No records were created''\<rparr>,
      \<lparr>store = 1,
       trace = [Table (PStr ''users''), Insert (PDict [(PStr ''name'', PStr ''X'')]),
                Execute]\<rparr>)
   \<and> delete_table_records (returning (PList [])) (PStr ''users'')
      (PDict [(PStr ''id'', PInt 1)]) fresh =
     (Inr \<lparr>data = PList [], count = 0, status = ''error'',
           message = PStr ''No records were deleted''\<rparr>,
      \<lparr>store = 1,
       trace = [Table (PStr ''users''), Delete, Eq (PStr ''id'') (PInt 1), Execute]\<rparr>)"
  using envelope_status [where backend = "returning (PList [])" and w = fresh
      and t = "PStr ''users''" and rs = "PDict [(PStr ''name'', PStr ''X'')]"
      and u = "PDict [(PStr ''name'', PStr ''X'')]" and f = "PDict [(PStr ''id'', PInt 1)]"
      and k = 1 and s' = 1
      and envc = "\<lparr>data = PList [], count = 0, status = ''error'',
           message = PStr ''No records were created''\<rparr>"
      and envu = "\<lparr>data = PList [], count = 0, status = ''error'',
           message = PStr ''No records were updated''\<rparr>"
      and envd = "\<lparr>data = PList [], count = 0, status = ''error'',
           message = PStr ''No records were deleted''\<rparr>"
      and wc = "\<lparr>store = 1,
       trace = [Table (PStr ''users''), Insert (PDict [(PStr ''name'', PStr ''X'')]),
                Execute]\<rparr>"
      and wu = "\<lparr>store = 1,
       trace = [Table (PStr ''users''), Update (PDict [(PStr ''name'', PStr ''X'')]),
                Eq (PStr ''id'') (PInt 1), Execute]\<rparr>"
      and wd = "\<lparr>store = 1,
       trace = [Table (PStr ''users''), Delete, Eq (PStr ''id'') (PInt 1), Execute]\<rparr>"]
  by (simp add: validate_table_name_users validate_updates_name validate_filters_nonempty
      returning_def fresh_def)

subsection \<open>Mandatory filters and records\<close>

text \<open>
  What the operations do require of \<open>filters\<close>: an explicitly empty mapping always fails
  with a ValidationError and no call reaches the client, and the validator of the
  updates, which stands next to \<open>validate_filters\<close> in update, rejects None.
\<close>

lemma empty_filters_rejected:
  "(\<exists>m. update_table_records backend t u (PDict []) w = (Inl (ValidationError m (PDict [])), w))
   \<and> (\<exists>m. delete_table_records backend t (PDict []) w = (Inl (ValidationError m (PDict [])), w))
   \<and> (validate_table_name t = Inr () \<and> validate_updates u = Inr () \<longrightarrow>
        update_table_records backend t u (PDict []) w =
          (Inl (ValidationError ''Filters dictionary cannot be empty'' (PDict [])), w))
   \<and> (validate_table_name t = Inr () \<longrightarrow>
        delete_table_records backend t (PDict []) w =
          (Inl (ValidationError ''Filters dictionary cannot be empty'' (PDict [])), w))"
proof -
  have vt: "mk_ValidationError m = ValidationError m (PDict [])" for m
    by (simp add: mk_ValidationError_def details_or_empty_def)
  have a: "\<exists>m. update_table_records backend t u (PDict []) w
      = (Inl (ValidationError m (PDict [])), w)"
    by (auto simp: update_table_records_def validate_table_name_def validate_updates_def
        validate_filters_empty vt split: sum.splits)
  have b: "\<exists>m. delete_table_records backend t (PDict []) w
      = (Inl (ValidationError m (PDict [])), w)"
    by (auto simp: delete_table_records_def validate_table_name_def
        validate_filters_empty vt split: sum.splits)
  have c: "validate_table_name t = Inr () \<and> validate_updates u = Inr () \<longrightarrow>
        update_table_records backend t u (PDict []) w =
          (Inl (ValidationError ''Filters dictionary cannot be empty'' (PDict [])), w)"
    by (simp add: update_table_records_def validate_filters_empty)
  have d: "validate_table_name t = Inr () \<longrightarrow>
        delete_table_records backend t (PDict []) w =
          (Inl (ValidationError ''Filters dictionary cannot be empty'' (PDict [])), w)"
    by (simp add: delete_table_records_def validate_filters_empty)
  show ?thesis
    by (intro conjI) (rule a, rule b, rule c, rule d)
qed

lemma validate_updates_None:
  "validate_updates PNone = Inl (ValidationError ''Updates must be a dictionary'' (PDict []))"
  by (simp add: validate_updates_def mk_ValidationError_def details_or_empty_def)

text \<open>
  C1. For update and delete, filters are mandatory: with filters None the operation
  is to fail validation with a ValidationError, as it does for the empty mapping, and
  issue no query. The code does not: \<open>validate_filters\<close>, which the two operations share
  with read, returns silently on None. At \<open>filters = None\<close> the update of \<^verbatim>\<open>users\<close> builds
  and executes the query with no equality constraint and returns an envelope, and the
  delete of \<^verbatim>\<open>users\<close>, on a store that answers with the row it removed, executes the
  unfiltered delete and reports success.
\<close>

theorem filters_none_reaches_store:
  "update_table_records (returning (PList [])) (PStr ''users'')
      (PDict [(PStr ''name'', PStr ''X'')]) PNone fresh =
     (Inr \<lparr>data = PList [], count = 0, status = ''error'',
           message = PStr ''No records were updated''\<rparr>,
      \<lparr>store = 1,
       trace = [Table (PStr ''users''), Update (PDict [(PStr ''name'', PStr ''X'')]),
                Execute]\<rparr>)
   \<and> delete_table_records (returning (PList [PDict [(PStr ''id'', PInt 1)]])) (PStr ''users'')
      PNone fresh =
     (Inr \<lparr>data = PList [PDict [(PStr ''id'', PInt 1)]], count = 1, status = ''success'',
           message = PStr ''Deleted 1 record(s)''\<rparr>,
      \<lparr>store = 1, trace = [Table (PStr ''users''), Delete, Execute]\<rparr>)
   \<and> validate_filters PNone = Inr ()"
  by (simp add: update_run delete_run validate_table_name_users validate_updates_name
      validate_filters_None safe_execute_query_eq wrap_response_zero_rows
      wrap_response_sized [where n = 1] show_nat_1 returning_def fresh_def)

text \<open>
  With an empty table name and empty records, \<open>create_table_records\<close> raises the error of
  the table name, not the error of the records: the table name is validated first.
\<close>

theorem create_table_name_first_counterexample:
  "create_table_records (returning (PList [])) (PStr []) (PDict []) fresh =
     (Inl (ValidationError ''Table name cannot be empty'' (PDict [])), fresh)"
  by (simp add: create_table_records_def validate_table_name_cases strip_def)

text \<open>
  C9. In \<open>create_table_records\<close> the table name is validated first. For every
  call with a valid table name and empty or null (falsy) records, ValidationError
  \<^verbatim>\<open>Records cannot be empty\<close> is raised, whatever the store, and no call reaches the
  client. When the table name is invalid, \<^verbatim>\<open>Table name cannot be empty\<close> is raised,
  whatever the records.
\<close>

theorem create_records_checked_after_table_name:
  "(validate_table_name t = Inr () \<and> \<not> truthy rs \<longrightarrow>
      create_table_records backend t rs w =
        (Inl (ValidationError ''Records cannot be empty'' (PDict [])), w))
   \<and> (validate_table_name t' \<noteq> Inr () \<longrightarrow>
      create_table_records backend t' rs w =
        (Inl (ValidationError ''Table name cannot be empty'' (PDict [])), w))"
  using validate_table_name_Inl [of t']
  by (auto simp: create_table_records_def mk_ValidationError_def details_or_empty_def)

theorem create_records_checked_after_table_name_witness:
  "create_table_records (returning (PList [])) (PStr ''users'') (PDict []) fresh =
     (Inl (ValidationError ''Records cannot be empty'' (PDict [])), fresh)
   \<and> create_table_records (returning (PList [])) (PStr ''users'') PNone fresh =
     (Inl (ValidationError ''Records cannot be empty'' (PDict [])), fresh)
   \<and> create_table_records (returning (PList [])) PNone (PDict []) fresh =
     (Inl (ValidationError ''Table name cannot be empty'' (PDict [])), fresh)"
  using create_records_checked_after_table_name [of "PStr ''users''" "PDict []" "returning (PList [])" fresh PNone]
    create_records_checked_after_table_name [of "PStr ''users''" PNone "returning (PList [])" fresh PNone]
  by (simp add: validate_table_name_cases strip_users)

end
